theory Spec2Isabelle
  imports Complex_Main
begin

section \<open>Values, exceptions and the outside world\<close>

text \<open>
  The program is \<^verbatim>\<open>Solana-Trading-Bot.py\<close>. Its numbers are Python floats; they are
  modelled as reals, so \<^verbatim>\<open>nan\<close>, the infinities and rounding are outside the model.
  The comparisons, the negation and \<^verbatim>\<open>abs\<close> of the buy trigger are exact on floats.
  The take-profit target of line 227 is rounded after each operation in the source and
  exact here: the two agree where every intermediate value is a double (entry price
  100.0 and 2.0 percent give exactly 102.0), and may differ by one rounding elsewhere
  (100.0 and 10.0 percent give 110.00000000000001 in the source).

  An exception is a value of \<open>error\<close>: \<open>RuntimeError\<close> is what the program itself
  raises (\<^verbatim>\<open>raise RuntimeError(...)\<close>), \<open>Raised\<close> is any exception that comes out of a
  library call (requests, base58, solders, json, the Jupiter SDK), with its description.
\<close>

datatype error =
    RuntimeError string
  | Raised string

text \<open>JSON values as \<^verbatim>\<open>r.json()\<close> returns them; the first binding of a key is the dict's.\<close>

datatype json =
    JNull
  | JBool bool
  | JNum real
  | JStr string
  | JList "json list"
  | JObj "(string \<times> json) list"

text \<open>Python's truth value of such a value (\<^verbatim>\<open>if not x\<close>, \<^verbatim>\<open>x or y\<close>).\<close>

fun truthy :: "json \<Rightarrow> bool" where
  "truthy JNull = False"
| "truthy (JBool b) = b"
| "truthy (JNum x) = (x \<noteq> 0)"
| "truthy (JStr s) = (s \<noteq> [])"
| "truthy (JList xs) = (xs \<noteq> [])"
| "truthy (JObj kvs) = (kvs \<noteq> [])"

text \<open>\<^verbatim>\<open>x.get(k)\<close>: \<^verbatim>\<open>None\<close> for a missing key, AttributeError when \<^verbatim>\<open>x\<close> is not a dict.\<close>

fun dict_get :: "json \<Rightarrow> string \<Rightarrow> error + json" where
  "dict_get (JObj kvs) k = Inr (case map_of kvs k of None \<Rightarrow> JNull | Some v \<Rightarrow> v)"
| "dict_get _ k = Inl (Raised ''AttributeError'')"

text \<open>
  \<^verbatim>\<open>os.getenv\<close> gives \<^verbatim>\<open>None\<close> or a string; \<^verbatim>\<open>if VAR:\<close> holds for a non-empty string.
\<close>

definition env_set :: "string option \<Rightarrow> bool" where
  "env_set v = (case v of None \<Rightarrow> False | Some s \<Rightarrow> s \<noteq> [])"

definition env_val :: "string option \<Rightarrow> string" where
  "env_val v = (case v of None \<Rightarrow> [] | Some s \<Rightarrow> s)"

text \<open>
  \<^verbatim>\<open>int(Decimal(...))\<close> truncates towards zero. (The Decimal product before it is rounded
  to the context's 28 significant digits; the model multiplies exactly.)
\<close>

definition py_int :: "real \<Rightarrow> int" where
  "py_int x = (if 0 \<le> x then \<lfloor>x\<rfloor> else \<lceil>x\<rceil>)"

text \<open>\<^verbatim>\<open>bytes(arr)\<close> of a list of ints: ValueError unless every item is in range(0, 256).\<close>

definition py_bytes :: "int list \<Rightarrow> error + nat list" where
  "py_bytes arr =
     (if list_all (\<lambda>x. 0 \<le> x \<and> x < 256) arr then Inr (map nat arr)
      else Inl (Raised ''ValueError''))"

datatype keypair = Keypair (secret_key: "nat list") (pubkey: string)

text \<open>The module's configuration globals (lines 34-38 and 24-28).\<close>

record config =
  TELEGRAM_TOKEN :: "string option"
  PRIVATE_KEY_JSON :: "string option"
  PRIVATE_KEY_B58 :: "string option"
  DRY_RUN :: bool
  HAVE_JUPITER_SDK :: bool

text \<open>
  What the file system, the libraries and the remote services answer. A library call
  returns its value (\<open>Inr\<close>) or raises (\<open>Inl\<close>, the exception's description).
  \<open>get_jupiter_quote\<close> and \<open>request_jupiter_swap\<close> are the source's two thin wrappers
  of one HTTP request each (request, \<^verbatim>\<open>raise_for_status\<close>, \<^verbatim>\<open>r.json()\<close>);
  \<open>swap_from_quote\<close> is \<^verbatim>\<open>Jupiter(async_client, keypair).swap_from_quote(quote)\<close>, where
  the SDK signs and sends.
\<close>

record world =
  path_exists :: "string \<Rightarrow> bool"
  json_load :: "string \<Rightarrow> string + int list"
  b58decode :: "string \<Rightarrow> string + nat list"
  from_bytes :: "nat list \<Rightarrow> string + keypair"
  float_of :: "string \<Rightarrow> string + real"
  get_jupiter_quote :: "int \<Rightarrow> string + json"
  request_jupiter_swap :: "json \<Rightarrow> string \<Rightarrow> string + json"
  swap_from_quote :: "keypair \<Rightarrow> json \<Rightarrow> string + json"
  b64decode :: "json \<Rightarrow> string + nat list"
  versioned_from_bytes :: "nat list \<Rightarrow> string + nat list"

section \<open>Key loading\<close>

definition no_private_key :: error where
  "no_private_key =
     RuntimeError ''No PRIVATE_KEY configured. Set PRIVATE_KEY_JSON or PRIVATE_KEY_B58''"

definition keypair_from_bytes :: "world \<Rightarrow> nat list \<Rightarrow> error + keypair" where
  "keypair_from_bytes w raw =
     (case from_bytes w raw of Inl x \<Rightarrow> Inl (Raised x) | Inr kp \<Rightarrow> Inr kp)"

definition load_keypair :: "config \<Rightarrow> world \<Rightarrow> error + keypair" where
  "load_keypair cfg w =
     (if env_set (PRIVATE_KEY_B58 cfg) then
        (case b58decode w (env_val (PRIVATE_KEY_B58 cfg)) of
           Inl x \<Rightarrow> Inl (Raised x)
         | Inr raw \<Rightarrow> keypair_from_bytes w raw)
      else if env_set (PRIVATE_KEY_JSON cfg) \<and> path_exists w (env_val (PRIVATE_KEY_JSON cfg)) then
        (case json_load w (env_val (PRIVATE_KEY_JSON cfg)) of
           Inl x \<Rightarrow> Inl (Raised x)
         | Inr arr \<Rightarrow>
             (case py_bytes arr of
                Inl e \<Rightarrow> Inl e
              | Inr secret \<Rightarrow> keypair_from_bytes w secret))
      else Inl no_private_key)"

section \<open>The buy path\<close>

text \<open>
  What \<open>buy_with_usdc\<close> returns: the dict \<^verbatim>\<open>{"simulated": True, "usdc": usdc_amount}\<close>
  of the dry run, or whatever the SDK's swap returned.
\<close>

datatype swap_result =
    Simulated real
  | Sdk_result json

text \<open>
  The calls \<open>buy_with_usdc\<close> makes to the outside, in order. Everything after the quote
  belongs to building and signing the transaction: the SDK's swap, the request for the
  swap transaction, and its deserialisation.
\<close>

datatype event =
    Quote_requested int
  | Sdk_swap json
  | Swap_requested json string
  | Tx_decoded json
  | Tx_deserialized "nat list"

fun signer_event :: "event \<Rightarrow> bool" where
  "signer_event (Quote_requested n) = False"
| "signer_event (Sdk_swap q) = True"
| "signer_event (Swap_requested q k) = True"
| "signer_event (Tx_decoded t) = True"
| "signer_event (Tx_deserialized b) = True"

definition reaches_signer :: "event list \<Rightarrow> bool" where
  "reaches_signer evs = list_ex signer_event evs"

definition no_quote_data :: error where
  "no_quote_data = RuntimeError ''No quote data returned from Jupiter''"

definition no_payload :: error where
  "no_payload = RuntimeError ''Jupiter /swap did not return a transaction payload''"

definition manual_signing :: error where
  "manual_signing = RuntimeError
     ''Manual signing of Jupiter versioned txns is advanced. Use jupiter-python-sdk or follow Jupiter docs. See comments in code.''"

text \<open>
  \<^verbatim>\<open>swap_resp.get("swapTransaction") or swap_resp.get("swapTransactionSerialized")\<close>
\<close>

definition swap_payload :: "json \<Rightarrow> error + json" where
  "swap_payload swap_resp =
     (case dict_get swap_resp ''swapTransaction'' of
        Inl e \<Rightarrow> Inl e
      | Inr a \<Rightarrow> if truthy a then Inr a else dict_get swap_resp ''swapTransactionSerialized'')"

text \<open>
  Option B of \<open>buy_with_usdc\<close> (lines 136-157), after the quote \<open>evs\<close> were made: it
  ends in an exception on every path, the last one unconditional.
\<close>

definition manual_swap ::
  "world \<Rightarrow> keypair \<Rightarrow> json \<Rightarrow> event list \<Rightarrow> event list \<times> (error + swap_result)" where
  "manual_swap w keypair quote evs =
     (let evs1 = evs @ [Swap_requested quote (pubkey keypair)] in
      case request_jupiter_swap w quote (pubkey keypair) of
        Inl x \<Rightarrow> (evs1, Inl (Raised x))
      | Inr swap_resp \<Rightarrow>
          (case swap_payload swap_resp of
             Inl e \<Rightarrow> (evs1, Inl e)
           | Inr tx_b64 \<Rightarrow>
               if \<not> truthy tx_b64 then (evs1, Inl no_payload)
               else
                 (case b64decode w tx_b64 of
                    Inl x \<Rightarrow> (evs1 @ [Tx_decoded tx_b64], Inl (Raised x))
                  | Inr tx_bytes \<Rightarrow>
                      (case versioned_from_bytes w tx_bytes of
                         Inl x \<Rightarrow>
                           (evs1 @ [Tx_decoded tx_b64, Tx_deserialized tx_bytes], Inl (Raised x))
                       | Inr vtx \<Rightarrow>
                           (evs1 @ [Tx_decoded tx_b64, Tx_deserialized tx_bytes],
                            Inl manual_signing)))))"

definition buy_with_usdc ::
  "config \<Rightarrow> world \<Rightarrow> keypair \<Rightarrow> real \<Rightarrow> event list \<times> (error + swap_result)" where
  "buy_with_usdc cfg w keypair usdc_amount =
     (if DRY_RUN cfg then ([], Inr (Simulated usdc_amount))
      else
        let amount_int = py_int (usdc_amount * 10 ^ 6) in
        case get_jupiter_quote w amount_int of
          Inl x \<Rightarrow> ([Quote_requested amount_int], Inl (Raised x))
        | Inr quote \<Rightarrow>
            (case dict_get quote ''data'' of
               Inl e \<Rightarrow> ([Quote_requested amount_int], Inl e)
             | Inr d \<Rightarrow>
                 if \<not> truthy d then ([Quote_requested amount_int], Inl no_quote_data)
                 else if HAVE_JUPITER_SDK cfg then
                   ([Quote_requested amount_int, Sdk_swap quote],
                    case swap_from_quote w keypair quote of
                      Inl x \<Rightarrow> Inl (Raised x)
                    | Inr res \<Rightarrow> Inr (Sdk_result res))
                 else manual_swap w keypair quote [Quote_requested amount_int]))"

section \<open>The strategy state and the monitor loop\<close>

text \<open>The global \<^verbatim>\<open>STATE\<close> dict (lines 41-47): a record, and its initial value.\<close>

record state =
  buy_drop_pct :: real
  take_profit_pct :: real
  holding :: bool
  last_buy_price :: "real option"
  position_amount_sol :: real

definition STATE :: state where
  "STATE = \<lparr>buy_drop_pct = 5, take_profit_pct = 2, holding = False,
     last_buy_price = None, position_amount_sol = 0\<rparr>"

text \<open>
  What one pass of the loop does towards trading: \<open>Buy_called a evs\<close> is the call
  \<^verbatim>\<open>buy_with_usdc(async_client, keypair, usdc_amount=a)\<close> with the outside calls \<open>evs\<close> it
  made; \<open>Sell_reached\<close> is the take-profit branch (line 229, "Take profit reached -> SELL.").
  The source has no sell flow: the branch only resets the position.
\<close>

datatype action =
    Buy_called real "event list"
  | Sell_reached

fun is_buy :: "action \<Rightarrow> bool" where
  "is_buy (Buy_called a evs) = True"
| "is_buy Sell_reached = False"

text \<open>
  The calls to the outside behind a list of actions: those of each buy. Lines 229-234
  log and assign, and call nothing.
\<close>

definition outside_calls :: "action list \<Rightarrow> event list" where
  "outside_calls acts =
     concat (map (\<lambda>a. case a of Buy_called x evs \<Rightarrow> evs | Sell_reached \<Rightarrow> []) acts)"

text \<open>Line 213.\<close>

definition buy_condition :: "state \<Rightarrow> real \<Rightarrow> bool" where
  "buy_condition s pct24 = (\<not> holding s \<and> pct24 \<le> - \<bar>buy_drop_pct s\<bar>)"

text \<open>Lines 213-224: the inner \<^verbatim>\<open>try\<close> catches every exception of the buy.\<close>

definition buy_step ::
  "config \<Rightarrow> world \<Rightarrow> keypair \<Rightarrow> real \<Rightarrow> real \<Rightarrow> state \<Rightarrow> action list \<times> state" where
  "buy_step cfg w keypair price pct24 s =
     (if buy_condition s pct24 then
        (case buy_with_usdc cfg w keypair 5 of
           (evs, Inr res) \<Rightarrow>
             ([Buy_called 5 evs],
              s\<lparr>holding := True, last_buy_price := Some price, position_amount_sol := 0\<rparr>)
         | (evs, Inl e) \<Rightarrow> ([Buy_called 5 evs], s))
      else ([], s))"

text \<open>The truth value of \<^verbatim>\<open>STATE["last_buy_price"]\<close>: \<^verbatim>\<open>None\<close> and \<^verbatim>\<open>0.0\<close> are false.\<close>

definition price_truthy :: "real option \<Rightarrow> bool" where
  "price_truthy p = (case p of None \<Rightarrow> False | Some x \<Rightarrow> x \<noteq> 0)"

text \<open>
  Lines 226-234. The \<open>None\<close> case is behind the guard and never taken. The target is
  computed in exact arithmetic (see the first section). \<open>Sell_reached\<close> records that the
  branch was taken; no sell is made there.
\<close>

definition take_profit_step :: "real \<Rightarrow> state \<Rightarrow> action list \<times> state" where
  "take_profit_step price s =
     (if holding s \<and> price_truthy (last_buy_price s) then
        (case last_buy_price s of
           None \<Rightarrow> ([], s)
         | Some p \<Rightarrow>
             let target = p * (1 + take_profit_pct s / 100) in
             if price \<ge> target then
               ([Sell_reached],
                s\<lparr>holding := False, last_buy_price := None, position_amount_sol := 0\<rparr>)
             else ([], s))
      else ([], s))"

text \<open>
  One pass of the \<^verbatim>\<open>while True\<close> body (lines 209-236). \<open>fetched\<close> is what
  \<^verbatim>\<open>fetch_sol_24h_change_and_price()\<close> did in this pass: it raised, or returned
  \<open>(price, pct24)\<close>. The outer \<^verbatim>\<open>except\<close> logs and goes on to the next pass.
\<close>

definition monitor_pass ::
  "config \<Rightarrow> world \<Rightarrow> keypair \<Rightarrow> error + real \<times> real \<Rightarrow> state \<Rightarrow> action list \<times> state" where
  "monitor_pass cfg w keypair fetched s =
     (case fetched of
        Inl e \<Rightarrow> ([], s)
      | Inr (price, pct24) \<Rightarrow>
          (case buy_step cfg w keypair price pct24 s of
             (acts1, s1) \<Rightarrow>
               (case take_profit_step price s1 of
                  (acts2, s2) \<Rightarrow> (acts1 @ acts2, s2))))"

section \<open>The Telegram commands\<close>

datatype reply =
    Start_text
  | Buy_drop_set real
  | Usage_setbuy
  | Tp_set real
  | Usage_settp
  | State_dump state
  | Usage_manualbuy
  | Manual_buy_scheduled real bool
  | Buy_result swap_result
  | Buy_failed error
  | Manual_sell_requested

definition start_cmd :: "reply list" where
  "start_cmd = [Start_text]"

text \<open>
  \<^verbatim>\<open>float(context.args[0])\<close> raises IndexError without an argument and ValueError on
  a string that is no float; \<^verbatim>\<open>except Exception\<close> answers with the usage line.
  \<open>float_of\<close> of the world is Python's \<^verbatim>\<open>float\<close> on strings. Sending a reply is taken
  to succeed; a handler's replies are listed in order.
\<close>

definition setbuy_cmd :: "world \<Rightarrow> string list \<Rightarrow> state \<Rightarrow> reply list \<times> state" where
  "setbuy_cmd w args s =
     (case args of
        [] \<Rightarrow> ([Usage_setbuy], s)
      | a # rest \<Rightarrow>
          (case float_of w a of
             Inl x \<Rightarrow> ([Usage_setbuy], s)
           | Inr v \<Rightarrow> ([Buy_drop_set v], s\<lparr>buy_drop_pct := v\<rparr>)))"

definition settp_cmd :: "world \<Rightarrow> string list \<Rightarrow> state \<Rightarrow> reply list \<times> state" where
  "settp_cmd w args s =
     (case args of
        [] \<Rightarrow> ([Usage_settp], s)
      | a # rest \<Rightarrow>
          (case float_of w a of
             Inl x \<Rightarrow> ([Usage_settp], s)
           | Inr v \<Rightarrow> ([Tp_set v], s\<lparr>take_profit_pct := v\<rparr>)))"

definition status_cmd :: "state \<Rightarrow> reply list" where
  "status_cmd s = [State_dump s]"

text \<open>
  \<open>manualbuy_cmd\<close> neither reads nor writes \<^verbatim>\<open>STATE\<close>. It returns its replies, the
  outside calls of the buy, and the exception that leaves the handler, if any
  (\<^verbatim>\<open>float\<close> and \<^verbatim>\<open>load_keypair\<close> stand outside its \<^verbatim>\<open>try\<close>).
\<close>

definition manualbuy_cmd ::
  "config \<Rightarrow> world \<Rightarrow> string list \<Rightarrow> reply list \<times> event list \<times> error option" where
  "manualbuy_cmd cfg w args =
     (case args of
        [] \<Rightarrow> ([Usage_manualbuy], [], None)
      | a # rest \<Rightarrow>
          (case float_of w a of
             Inl x \<Rightarrow> ([], [], Some (Raised x))
           | Inr usdc_amount \<Rightarrow>
               (case load_keypair cfg w of
                  Inl e \<Rightarrow> ([Manual_buy_scheduled usdc_amount (DRY_RUN cfg)], [], Some e)
                | Inr keypair \<Rightarrow>
                    (case buy_with_usdc cfg w keypair usdc_amount of
                       (evs, Inr res) \<Rightarrow>
                         ([Manual_buy_scheduled usdc_amount (DRY_RUN cfg), Buy_result res],
                          evs, None)
                     | (evs, Inl e) \<Rightarrow>
                         ([Manual_buy_scheduled usdc_amount (DRY_RUN cfg), Buy_failed e],
                          evs, None)))))"

definition manualsell_cmd :: "reply list" where
  "manualsell_cmd = [Manual_sell_requested]"

section \<open>Runs of the program\<close>

text \<open>
  The operations that touch \<^verbatim>\<open>STATE\<close> after startup: passes of the monitor loop and
  the command handlers, in the order the event loop runs them, each in the world it
  meets. The monitor task loads the key pair once, in the world \<open>w0\<close> of its start,
  and makes no pass when that fails. A handler that runs while a pass awaits its buy
  writes only \<open>buy_drop_pct\<close> or \<open>take_profit_pct\<close>; the pass has read the first before
  the buy and reads the second after it, so such a run is one of the sequential runs
  below.
\<close>

datatype op =
    Monitor "error + real \<times> real"
  | Start
  | Setbuy "string list"
  | Settp "string list"
  | Status
  | Manualbuy "string list"
  | Manualsell

fun step :: "config \<Rightarrow> world \<Rightarrow> world \<times> op \<Rightarrow> state \<Rightarrow> state" where
  "step cfg w0 (w, Monitor fetched) s =
     (case load_keypair cfg w0 of
        Inl e \<Rightarrow> s
      | Inr keypair \<Rightarrow> snd (monitor_pass cfg w keypair fetched s))"
| "step cfg w0 (w, Start) s = s"
| "step cfg w0 (w, Setbuy args) s = snd (setbuy_cmd w args s)"
| "step cfg w0 (w, Settp args) s = snd (settp_cmd w args s)"
| "step cfg w0 (w, Status) s = s"
| "step cfg w0 (w, Manualbuy args) s = s"
| "step cfg w0 (w, Manualsell) s = s"

fun run :: "config \<Rightarrow> world \<Rightarrow> (world \<times> op) list \<Rightarrow> state \<Rightarrow> state" where
  "run cfg w0 [] s = s"
| "run cfg w0 (x # xs) s = run cfg w0 xs (step cfg w0 x s)"

text \<open>The position's invariant: the entry price is set exactly while holding.\<close>

definition position_ok :: "state \<Rightarrow> bool" where
  "position_ok s = (holding s = (last_buy_price s \<noteq> None))"

section \<open>Examples\<close>

definition kp0 :: keypair where
  "kp0 = Keypair [1, 2, 3] ''PUBKEY''"

definition cfg_dry :: config where
  "cfg_dry = \<lparr>TELEGRAM_TOKEN = Some ''t'', PRIVATE_KEY_JSON = None,
     PRIVATE_KEY_B58 = Some ''k'', DRY_RUN = True, HAVE_JUPITER_SDK = False\<rparr>"

definition good_quote :: json where
  "good_quote = JObj [(''data'', JList [JObj [(''outAmount'', JStr ''33000000'')]])]"

definition w_ok :: world where
  "w_ok = \<lparr>path_exists = (\<lambda>p. True),
     json_load = (\<lambda>p. Inr [1, 2, 3]),
     b58decode = (\<lambda>s. Inr [1, 2, 3]),
     from_bytes = (\<lambda>b. Inr (Keypair b ''PUBKEY'')),
     float_of = (\<lambda>s. if s = ''5'' then Inr 5 else if s = ''-5'' then Inr (- 5) else Inl ''ValueError''),
     get_jupiter_quote = (\<lambda>n. Inr good_quote),
     request_jupiter_swap = (\<lambda>q k. Inr (JObj [(''swapTransaction'', JStr ''AQID'')])),
     swap_from_quote = (\<lambda>k q. Inr (JObj [(''outAmount'', JStr ''33000000'')])),
     b64decode = (\<lambda>t. Inr [1, 2, 3]),
     versioned_from_bytes = (\<lambda>b. Inr b)\<rparr>"

definition cfg_live_manual :: config where
  "cfg_live_manual = \<lparr>TELEGRAM_TOKEN = Some ''t'', PRIVATE_KEY_JSON = Some ''id.json'',
     PRIVATE_KEY_B58 = Some ''k'', DRY_RUN = False, HAVE_JUPITER_SDK = False\<rparr>"

definition cfg_live_sdk :: config where
  "cfg_live_sdk = \<lparr>TELEGRAM_TOKEN = Some ''t'', PRIVATE_KEY_JSON = Some ''id.json'',
     PRIVATE_KEY_B58 = None, DRY_RUN = False, HAVE_JUPITER_SDK = True\<rparr>"

definition cfg_no_key :: config where
  "cfg_no_key = \<lparr>TELEGRAM_TOKEN = Some ''t'', PRIVATE_KEY_JSON = None,
     PRIVATE_KEY_B58 = Some [], DRY_RUN = True, HAVE_JUPITER_SDK = False\<rparr>"

definition w_down :: world where
  "w_down = w_ok\<lparr>get_jupiter_quote := (\<lambda>n. Inl ''HTTPError'')\<rparr>"

definition holding_at :: "real \<Rightarrow> state" where
  "holding_at p = \<lparr>buy_drop_pct = 5, take_profit_pct = 2, holding = True,
     last_buy_price = Some p, position_amount_sol = 0\<rparr>"

section \<open>Auxiliary facts about one pass\<close>

lemma take_profit_step_flat:
  "\<not> holding s \<Longrightarrow> take_profit_step price s = ([], s)"
  by (simp add: take_profit_step_def)

lemma take_profit_step_holding:
  assumes "holding s" "last_buy_price s = Some p" "p \<noteq> 0"
  shows "take_profit_step price s =
    (if p * (1 + take_profit_pct s / 100) \<le> price
     then ([Sell_reached], s\<lparr>holding := False, last_buy_price := None, position_amount_sol := 0\<rparr>)
     else ([], s))"
  using assms by (simp add: take_profit_step_def price_truthy_def)

lemma outside_calls_take_profit_step:
  "outside_calls (fst (take_profit_step price s)) = []"
  by (simp add: take_profit_step_def outside_calls_def Let_def split: option.splits)

lemma buy_step_holding:
  "holding s \<Longrightarrow> buy_step cfg w keypair price pct24 s = ([], s)"
  by (simp add: buy_step_def buy_condition_def)

lemma monitor_pass_holding:
  "holding s \<Longrightarrow> monitor_pass cfg w keypair (Inr (price, pct24)) s = take_profit_step price s"
  by (simp add: monitor_pass_def buy_step_holding split: prod.splits)

lemma snd_monitor_pass:
  "snd (monitor_pass cfg w keypair (Inr (price, pct24)) s) =
     snd (take_profit_step price (snd (buy_step cfg w keypair price pct24 s)))"
  by (simp add: monitor_pass_def split: prod.splits)

lemma fst_monitor_pass:
  "fst (monitor_pass cfg w keypair (Inr (price, pct24)) s) =
     fst (buy_step cfg w keypair price pct24 s)
     @ fst (take_profit_step price (snd (buy_step cfg w keypair price pct24 s)))"
  by (simp add: monitor_pass_def split: prod.splits)

lemma buy_failure_keeps_state:
  assumes "isl (snd (buy_with_usdc cfg w keypair 5))"
  shows "snd (buy_step cfg w keypair price pct24 s) = s"
  using assms
  by (cases "buy_with_usdc cfg w keypair 5") (auto simp: buy_step_def split: sum.splits)

lemma no_immediate_take_profit:
  assumes "0 < price" "0 < tp"
  shows "\<not> price * (1 + tp / 100) \<le> (price::real)"
proof -
  have "0 < price * (tp / 100)" using assms by simp
  then have "price < price * (1 + tp / 100)" by (simp add: algebra_simps)
  then show ?thesis by simp
qed

lemma buy_step_position_ok:
  "position_ok s \<Longrightarrow> position_ok (snd (buy_step cfg w keypair price pct24 s))"
  by (cases "buy_with_usdc cfg w keypair 5")
     (auto simp: buy_step_def position_ok_def split: sum.splits)

lemma take_profit_step_position_ok:
  "position_ok s \<Longrightarrow> position_ok (snd (take_profit_step price s))"
  by (auto simp: take_profit_step_def position_ok_def Let_def split: option.splits)

lemma monitor_pass_position_ok:
  assumes "position_ok s"
  shows "position_ok (snd (monitor_pass cfg w keypair fetched s))"
proof (cases fetched)
  case (Inl e)
  then show ?thesis using assms by (simp add: monitor_pass_def)
next
  case (Inr pp)
  obtain price pct24 where pp: "pp = (price, pct24)" by (cases pp)
  have "position_ok (snd (take_profit_step price (snd (buy_step cfg w keypair price pct24 s))))"
    by (intro take_profit_step_position_ok buy_step_position_ok assms)
  then show ?thesis
    by (simp add: snd_monitor_pass Inr pp)
qed

lemma setbuy_cmd_position_ok:
  "position_ok s \<Longrightarrow> position_ok (snd (setbuy_cmd w args s))"
  by (auto simp: setbuy_cmd_def position_ok_def split: list.splits sum.splits)

lemma settp_cmd_position_ok:
  "position_ok s \<Longrightarrow> position_ok (snd (settp_cmd w args s))"
  by (auto simp: settp_cmd_def position_ok_def split: list.splits sum.splits)

lemma step_position_ok:
  "position_ok s \<Longrightarrow> position_ok (step cfg w0 x s)"
proof (cases x)
  case (Pair w opn)
  assume ok: "position_ok s"
  show ?thesis
  proof (cases opn)
    case (Monitor fetched)
    then show ?thesis using ok Pair
      by (simp add: monitor_pass_position_ok split: sum.splits)
  qed (simp_all add: Pair ok setbuy_cmd_position_ok settp_cmd_position_ok)
qed

lemma run_position_ok:
  "position_ok s \<Longrightarrow> position_ok (run cfg w0 xs s)"
  by (induction xs arbitrary: s) (simp_all add: step_position_ok)

section \<open>The claims\<close>

subsection \<open>The dry run\<close>

text \<open>
  C1. With \<open>DRY_RUN\<close> set, \<open>buy_with_usdc\<close> returns the simulated result for every
  amount, whatever the outside would answer, and makes no call at all: in particular none
  of the calls that build or sign a transaction.
\<close>

theorem C1_dry_run_never_signs:
  assumes "DRY_RUN cfg"
  shows "buy_with_usdc cfg w keypair usdc_amount = ([], Inr (Simulated usdc_amount))
    \<and> \<not> reaches_signer (fst (buy_with_usdc cfg w keypair usdc_amount))"
  using assms by (simp add: buy_with_usdc_def reaches_signer_def)

theorem C1_witness:
  "DRY_RUN cfg_dry
   \<and> buy_with_usdc cfg_dry w_ok kp0 5 = ([], Inr (Simulated 5))
   \<and> \<not> reaches_signer (fst (buy_with_usdc cfg_dry w_ok kp0 5))"
proof -
  have d: "DRY_RUN cfg_dry" by (simp add: cfg_dry_def)
  from C1_dry_run_never_signs [OF d, of w_ok kp0 5] d show ?thesis by blast
qed

subsection \<open>Failed attempts\<close>

text \<open>
  C2. A pass whose buy raises leaves \<^verbatim>\<open>STATE\<close> as it was: the position stays closed and
  no field changes. For the sell the source has no attempt that could fail: once the
  take-profit price is reached the pass resets the position at once, in every world and
  without any call to the outside, so the position is closed whether or not a sell
  could have succeeded.
\<close>

theorem C2_failed_buy_keeps_state_but_sell_always_resets:
  "(buy_condition s pct24 \<longrightarrow> isl (snd (buy_with_usdc cfg w keypair 5)) \<longrightarrow>
      snd (monitor_pass cfg w keypair (Inr (price, pct24)) s) = s)
   \<and> (holding s \<longrightarrow> last_buy_price s = Some p \<longrightarrow> p \<noteq> 0 \<longrightarrow>
      p * (1 + take_profit_pct s / 100) \<le> price \<longrightarrow>
      monitor_pass cfg w keypair (Inr (price, pct24)) s =
        ([Sell_reached], s\<lparr>holding := False, last_buy_price := None, position_amount_sol := 0\<rparr>))"
proof (intro conjI impI)
  assume c: "buy_condition s pct24" and f: "isl (snd (buy_with_usdc cfg w keypair 5))"
  from c have flat: "\<not> holding s" by (simp add: buy_condition_def)
  have b: "snd (buy_step cfg w keypair price pct24 s) = s"
    by (rule buy_failure_keeps_state [OF f])
  obtain acts where bs: "buy_step cfg w keypair price pct24 s = (acts, s)"
    using b by (cases "buy_step cfg w keypair price pct24 s") simp
  show "snd (monitor_pass cfg w keypair (Inr (price, pct24)) s) = s"
    by (simp add: monitor_pass_def bs take_profit_step_flat [OF flat])
next
  assume "holding s" "last_buy_price s = Some p" "p \<noteq> 0"
    "p * (1 + take_profit_pct s / 100) \<le> price"
  then show "monitor_pass cfg w keypair (Inr (price, pct24)) s =
        ([Sell_reached], s\<lparr>holding := False, last_buy_price := None, position_amount_sol := 0\<rparr>)"
    by (simp add: monitor_pass_holding take_profit_step_holding)
qed

theorem C2_witness:
  "buy_condition STATE (- 6) \<and> isl (snd (buy_with_usdc cfg_live_sdk w_down kp0 5))
   \<and> snd (monitor_pass cfg_live_sdk w_down kp0 (Inr (150, - 6)) STATE) = STATE
   \<and> holding (holding_at 100) \<and> last_buy_price (holding_at 100) = Some 100
   \<and> (100::real) * (1 + take_profit_pct (holding_at 100) / 100) \<le> 102
   \<and> monitor_pass cfg_live_sdk w_down kp0 (Inr (102, 0)) (holding_at 100) =
        ([Sell_reached], (holding_at 100)\<lparr>holding := False, last_buy_price := None,
            position_amount_sol := 0\<rparr>)"
proof -
  have a: "buy_condition STATE (- 6)" by (simp add: buy_condition_def STATE_def)
  have b: "isl (snd (buy_with_usdc cfg_live_sdk w_down kp0 5))"
    by (simp add: buy_with_usdc_def cfg_live_sdk_def w_down_def w_ok_def)
  have c: "holding (holding_at 100)" "last_buy_price (holding_at 100) = Some 100"
    "(100::real) \<noteq> 0" "(100::real) * (1 + take_profit_pct (holding_at 100) / 100) \<le> 102"
    by (simp_all add: holding_at_def)
  from C2_failed_buy_keeps_state_but_sell_always_resets
    [of STATE "- 6" cfg_live_sdk w_down kp0 150 100]
    C2_failed_buy_keeps_state_but_sell_always_resets
    [of "holding_at 100" 0 cfg_live_sdk w_down kp0 102 100] a b c
  show ?thesis by blast
qed

subsection \<open>Take profit\<close>

text \<open>
  C3. The claim wants a sell issued exactly when the price has reached the take-profit
  target. The program issues none: a pass that starts while holding makes no call to
  the outside, whatever the snapshot, and its outcome is the same in every
  configuration, world and key pair. Reaching the target only resets the position
  (lines 229-234). This holds whichever way the comparison of line 228 falls, so it
  does not depend on how the target is rounded.
\<close>

theorem C3_holding_pass_issues_no_sell:
  assumes "holding s"
  shows "outside_calls (fst (monitor_pass cfg w keypair fetched s)) = []
     \<and> monitor_pass cfg w keypair fetched s = monitor_pass cfg' w' keypair' fetched s"
proof (cases fetched)
  case (Inl e)
  then show ?thesis by (simp add: monitor_pass_def outside_calls_def)
next
  case (Inr pp)
  obtain price pct24 where pp: "pp = (price, pct24)" by (cases pp)
  have a: "monitor_pass c v k (Inr (price, pct24)) s = take_profit_step price s" for c v k
    by (rule monitor_pass_holding [OF assms])
  show ?thesis
    by (simp add: Inr pp a outside_calls_take_profit_step)
qed

text \<open>
  At the entry price 100, 2 percent and the price 102 the target is reached (102 is
  the target, in doubles too): the pass resets the position and calls nothing, with the
  SDK at hand and every service answering as with every service down.
\<close>

theorem C3_witness:
  "holding (holding_at 100)
   \<and> (102::real) \<ge> 100 * (1 + take_profit_pct (holding_at 100) / 100)
   \<and> monitor_pass cfg_live_sdk w_ok kp0 (Inr (102, 0)) (holding_at 100) = ([Sell_reached], STATE)
   \<and> outside_calls (fst (monitor_pass cfg_live_sdk w_ok kp0 (Inr (102, 0)) (holding_at 100))) = []
   \<and> monitor_pass cfg_live_sdk w_ok kp0 (Inr (102, 0)) (holding_at 100) =
       monitor_pass cfg_dry w_down kp0 (Inr (102, 0)) (holding_at 100)"
proof -
  have h: "holding (holding_at 100)" by (simp add: holding_at_def)
  have t: "(102::real) \<ge> 100 * (1 + take_profit_pct (holding_at 100) / 100)"
    by (simp add: holding_at_def)
  have r: "monitor_pass cfg_live_sdk w_ok kp0 (Inr (102, 0)) (holding_at 100) =
      ([Sell_reached], STATE)"
    by (simp add: monitor_pass_def buy_step_def buy_condition_def take_profit_step_def
        price_truthy_def holding_at_def STATE_def)
  from C3_holding_pass_issues_no_sell
    [OF h, of cfg_live_sdk w_ok kp0 "Inr (102, 0)" cfg_dry w_down kp0] h t r
  show ?thesis by blast
qed

subsection \<open>The buy trigger\<close>

text \<open>
  C4 (amended). While flat, for every snapshot with
  \<open>change_24h_pct \<le> - \<bar>buy_drop_pct\<bar>\<close> (the condition \<open>change_24h_pct \<le> - buy_drop_pct\<close>
  whenever \<open>buy_drop_pct\<close> is not negative), the pass calls \<open>buy_with_usdc\<close> exactly once,
  with the fixed amount of 5 USDC: the program has no configurable trade size.
\<close>

theorem C4_buy_amount_is_fixed:
  assumes "\<not> holding s" and "pct24 \<le> - \<bar>buy_drop_pct s\<bar>"
  shows "filter is_buy (fst (monitor_pass cfg w keypair (Inr (price, pct24)) s)) =
     [Buy_called 5 (fst (buy_with_usdc cfg w keypair 5))]"
proof -
  have c: "buy_condition s pct24" using assms by (simp add: buy_condition_def)
  have t: "filter is_buy (fst (take_profit_step price s')) = []" for s'
    by (simp add: take_profit_step_def Let_def split: option.splits)
  have b: "fst (buy_step cfg w keypair price pct24 s) =
      [Buy_called 5 (fst (buy_with_usdc cfg w keypair 5))]"
    using c by (cases "buy_with_usdc cfg w keypair 5") (auto simp: buy_step_def split: sum.splits)
  show ?thesis by (simp add: fst_monitor_pass b t)
qed

theorem C4_witness:
  "\<not> holding STATE \<and> (- 6::real) \<le> - \<bar>buy_drop_pct STATE\<bar>
   \<and> filter is_buy (fst (monitor_pass cfg_dry w_ok kp0 (Inr (150, - 6)) STATE)) =
       [Buy_called 5 []]"
proof -
  have a: "\<not> holding STATE" "(- 6::real) \<le> - \<bar>buy_drop_pct STATE\<bar>"
    by (simp_all add: STATE_def)
  have b: "fst (buy_with_usdc cfg_dry w_ok kp0 5) = []"
    by (simp add: buy_with_usdc_def cfg_dry_def)
  from C4_buy_amount_is_fixed [OF a, of cfg_dry w_ok kp0 150] a b show ?thesis by simp
qed

text \<open>
  The claim as stated fails twice. In the dry run, from the initial state and the
  snapshot (150, -6), the only call is a buy of 5, so the amount is not whatever trade
  size is configured. And with \<open>buy_drop_pct = -5\<close> the change 0 satisfies
  \<open>change_24h_pct \<le> - buy_drop_pct\<close>, yet the pass does nothing.
\<close>

theorem C4_counterexample:
  "fst (monitor_pass cfg_dry w_ok kp0 (Inr (150, - 6)) STATE) = [Buy_called 5 []]
   \<and> \<not> (\<forall>trade_size. 0 < trade_size \<longrightarrow>
        (\<exists>evs. Buy_called trade_size evs \<in> set (fst (monitor_pass cfg_dry w_ok kp0 (Inr (150, - 6)) STATE))))
   \<and> \<not> holding (STATE\<lparr>buy_drop_pct := - 5\<rparr>)
   \<and> (0::real) \<le> - buy_drop_pct (STATE\<lparr>buy_drop_pct := - 5\<rparr>)
   \<and> fst (monitor_pass cfg_dry w_ok kp0 (Inr (150, 0)) (STATE\<lparr>buy_drop_pct := - 5\<rparr>)) = []"
proof -
  have p: "fst (monitor_pass cfg_dry w_ok kp0 (Inr (150, - 6)) STATE) = [Buy_called 5 []]"
    by (simp add: monitor_pass_def buy_step_def buy_condition_def buy_with_usdc_def
        take_profit_step_def price_truthy_def STATE_def cfg_dry_def)
  have "\<not> (\<exists>evs. Buy_called 10 evs \<in> set (fst (monitor_pass cfg_dry w_ok kp0 (Inr (150, - 6)) STATE)))"
    by (simp add: p)
  then have one: "\<not> (\<forall>trade_size. 0 < trade_size \<longrightarrow>
        (\<exists>evs. Buy_called trade_size evs \<in> set (fst (monitor_pass cfg_dry w_ok kp0 (Inr (150, - 6)) STATE))))"
    by (metis zero_less_numeral)
  have two: "\<not> holding (STATE\<lparr>buy_drop_pct := - 5\<rparr>)"
    "(0::real) \<le> - buy_drop_pct (STATE\<lparr>buy_drop_pct := - 5\<rparr>)"
    "fst (monitor_pass cfg_dry w_ok kp0 (Inr (150, 0)) (STATE\<lparr>buy_drop_pct := - 5\<rparr>)) = []"
    by (simp_all add: monitor_pass_def buy_step_def buy_condition_def
        take_profit_step_def STATE_def)
  from p one two show ?thesis by blast
qed

text \<open>
  C5. With \<open>buy_drop_pct > 0\<close>, a pass in the flat state with
  \<open>change_24h_pct > - buy_drop_pct\<close> makes no buy; it does nothing at all and leaves the
  state unchanged.
\<close>

theorem C5_no_buy_above_threshold:
  assumes "0 < buy_drop_pct s" and "\<not> holding s" and "pct24 > - buy_drop_pct s"
  shows "\<not> list_ex is_buy (fst (monitor_pass cfg w keypair (Inr (price, pct24)) s))
     \<and> monitor_pass cfg w keypair (Inr (price, pct24)) s = ([], s)"
  using assms
  by (simp add: monitor_pass_def buy_step_def buy_condition_def take_profit_step_def)

theorem C5_witness:
  "0 < buy_drop_pct STATE \<and> \<not> holding STATE \<and> (- 4.99::real) > - buy_drop_pct STATE
   \<and> \<not> list_ex is_buy (fst (monitor_pass cfg_dry w_ok kp0 (Inr (150, - 4.99)) STATE))
   \<and> monitor_pass cfg_dry w_ok kp0 (Inr (150, - 4.99)) STATE = ([], STATE)"
proof -
  have a: "0 < buy_drop_pct STATE" "\<not> holding STATE" "(- 4.99::real) > - buy_drop_pct STATE"
    by (simp_all add: STATE_def)
  from C5_no_buy_above_threshold [OF a, of cfg_dry w_ok kp0 150] a show ?thesis by blast
qed

subsection \<open>A successful buy\<close>

text \<open>
  C6. After a pass whose buy returned (simulated or through the SDK), with a positive
  price and a positive take-profit percentage, the position is open and the entry price
  is the price of the snapshot; the position amount is set to the constant 0, whatever
  the swap result \<open>res\<close> holds.
\<close>

theorem C6_buy_sets_entry_price_and_zero_amount:
  assumes "buy_condition s pct24"
    and "snd (buy_with_usdc cfg w keypair 5) = Inr res"
    and "0 < price" and "0 < take_profit_pct s"
  shows "snd (monitor_pass cfg w keypair (Inr (price, pct24)) s) =
    s\<lparr>holding := True, last_buy_price := Some price, position_amount_sol := 0\<rparr>"
proof -
  let ?s1 = "s\<lparr>holding := True, last_buy_price := Some price, position_amount_sol := 0\<rparr>"
  obtain evs where b: "buy_with_usdc cfg w keypair 5 = (evs, Inr res)"
    using assms(2) by (cases "buy_with_usdc cfg w keypair 5") simp
  have bs: "buy_step cfg w keypair price pct24 s = ([Buy_called 5 evs], ?s1)"
    using assms(1) by (simp add: buy_step_def b)
  have "take_profit_step price ?s1 = ([], ?s1)"
    using assms(3,4) no_immediate_take_profit [of price "take_profit_pct s"]
    by (simp add: take_profit_step_def price_truthy_def)
  then show ?thesis by (simp add: monitor_pass_def bs)
qed

theorem C6_witness:
  "buy_condition STATE (- 6)
   \<and> snd (buy_with_usdc cfg_live_sdk w_ok kp0 5) =
       Inr (Sdk_result (JObj [(''outAmount'', JStr ''33000000'')]))
   \<and> (0::real) < 150 \<and> 0 < take_profit_pct STATE
   \<and> snd (monitor_pass cfg_live_sdk w_ok kp0 (Inr (150, - 6)) STATE) =
       STATE\<lparr>holding := True, last_buy_price := Some 150, position_amount_sol := 0\<rparr>"
proof -
  have a: "buy_condition STATE (- 6)" by (simp add: buy_condition_def STATE_def)
  have b: "snd (buy_with_usdc cfg_live_sdk w_ok kp0 5) =
       Inr (Sdk_result (JObj [(''outAmount'', JStr ''33000000'')]))"
    by (simp add: buy_with_usdc_def cfg_live_sdk_def w_ok_def good_quote_def py_int_def)
  have c: "(0::real) < 150" "0 < take_profit_pct STATE" by (simp_all add: STATE_def)
  from C6_buy_sets_entry_price_and_zero_amount [OF a b c] a b c show ?thesis by blast
qed

subsection \<open>The position invariant\<close>

text \<open>
  C7. In every state reached from the initial \<^verbatim>\<open>STATE\<close> by passes of the monitor loop
  and command handlers, \<open>last_buy_price\<close> is set if and only if \<open>holding\<close> is true.
\<close>

theorem C7_position_invariant:
  "position_ok (run cfg w0 xs STATE)"
  by (rule run_position_ok) (simp add: position_ok_def STATE_def)

theorem C7_witness:
  "position_ok (run cfg_dry w_ok [(w_ok, Monitor (Inr (150, - 6))), (w_ok, Setbuy [''-5''])] STATE)
   \<and> holding (run cfg_dry w_ok [(w_ok, Monitor (Inr (150, - 6))), (w_ok, Setbuy [''-5''])] STATE)"
proof -
  have "holding (run cfg_dry w_ok [(w_ok, Monitor (Inr (150, - 6))), (w_ok, Setbuy [''-5''])] STATE)"
    by (simp add: load_keypair_def cfg_dry_def w_ok_def env_set_def env_val_def
        keypair_from_bytes_def monitor_pass_def buy_step_def buy_condition_def
        buy_with_usdc_def take_profit_step_def price_truthy_def setbuy_cmd_def STATE_def)
  with C7_position_invariant [of cfg_dry w_ok "[(w_ok, Monitor (Inr (150, - 6))), (w_ok, Setbuy [''-5''])]"]
  show ?thesis by blast
qed

subsection \<open>Building and signing\<close>

text \<open>
  C8 (amended). When the dry run is off, \<open>buy_with_usdc\<close> signs nothing itself. Without
  the Jupiter SDK it raises on every path, for every quote and every payload; with the
  SDK and a quote that carries data it returns what the SDK's \<open>swap_from_quote\<close>
  returns, or raises what that raised.
\<close>

theorem C8_manual_path_never_signs:
  assumes "\<not> DRY_RUN cfg"
  shows "(\<not> HAVE_JUPITER_SDK cfg \<longrightarrow> isl (snd (buy_with_usdc cfg w keypair usdc_amount)))
    \<and> (HAVE_JUPITER_SDK cfg \<longrightarrow>
         get_jupiter_quote w (py_int (usdc_amount * 10 ^ 6)) = Inr quote \<longrightarrow>
         dict_get quote ''data'' = Inr d \<longrightarrow> truthy d \<longrightarrow>
         snd (buy_with_usdc cfg w keypair usdc_amount) =
           (case swap_from_quote w keypair quote of
              Inl x \<Rightarrow> Inl (Raised x)
            | Inr res \<Rightarrow> Inr (Sdk_result res)))"
proof (intro conjI impI)
  have m: "isl (snd (manual_swap w keypair q evs))" for q evs
    by (simp add: manual_swap_def Let_def split: sum.splits)
  assume "\<not> HAVE_JUPITER_SDK cfg"
  then show "isl (snd (buy_with_usdc cfg w keypair usdc_amount))"
    using assms by (simp add: buy_with_usdc_def Let_def m split: sum.splits)
next
  assume "HAVE_JUPITER_SDK cfg"
    "get_jupiter_quote w (py_int (usdc_amount * 10 ^ 6)) = Inr quote"
    "dict_get quote ''data'' = Inr d" "truthy d"
  then show "snd (buy_with_usdc cfg w keypair usdc_amount) =
           (case swap_from_quote w keypair quote of
              Inl x \<Rightarrow> Inl (Raised x)
            | Inr res \<Rightarrow> Inr (Sdk_result res))"
    using assms by (simp add: buy_with_usdc_def Let_def)
qed

theorem C8_witness:
  "\<not> DRY_RUN cfg_live_manual \<and> \<not> HAVE_JUPITER_SDK cfg_live_manual
   \<and> isl (snd (buy_with_usdc cfg_live_manual w_ok kp0 5))
   \<and> \<not> DRY_RUN cfg_live_sdk \<and> HAVE_JUPITER_SDK cfg_live_sdk
   \<and> get_jupiter_quote w_ok (py_int (5 * 10 ^ 6)) = Inr good_quote
   \<and> dict_get good_quote ''data'' = Inr (JList [JObj [(''outAmount'', JStr ''33000000'')]])
   \<and> truthy (JList [JObj [(''outAmount'', JStr ''33000000'')]])
   \<and> snd (buy_with_usdc cfg_live_sdk w_ok kp0 5) =
       Inr (Sdk_result (JObj [(''outAmount'', JStr ''33000000'')]))"
proof -
  have a: "\<not> DRY_RUN cfg_live_manual" "\<not> HAVE_JUPITER_SDK cfg_live_manual"
    by (simp_all add: cfg_live_manual_def)
  have b: "\<not> DRY_RUN cfg_live_sdk" "HAVE_JUPITER_SDK cfg_live_sdk"
    by (simp_all add: cfg_live_sdk_def)
  have c: "get_jupiter_quote w_ok (py_int (5 * 10 ^ 6)) = Inr good_quote"
    "dict_get good_quote ''data'' = Inr (JList [JObj [(''outAmount'', JStr ''33000000'')]])"
    "truthy (JList [JObj [(''outAmount'', JStr ''33000000'')]])"
    "swap_from_quote w_ok kp0 good_quote = Inr (JObj [(''outAmount'', JStr ''33000000'')])"
    by (simp_all add: w_ok_def good_quote_def)
  from C8_manual_path_never_signs [OF a(1), of w_ok kp0 5]
    C8_manual_path_never_signs [OF b(1), of w_ok kp0 5 good_quote
      "JList [JObj [(''outAmount'', JStr ''33000000'')]]"] a b c
  show ?thesis by simp
qed

text \<open>
  The claim as stated fails without the SDK: the dry run is off, the quote carries data,
  the swap request returns a payload that decodes and deserialises, and the call raises.
\<close>

theorem C8_counterexample:
  "\<not> DRY_RUN cfg_live_manual
   \<and> get_jupiter_quote w_ok (py_int (5 * 10 ^ 6)) = Inr good_quote
   \<and> dict_get good_quote ''data'' = Inr (JList [JObj [(''outAmount'', JStr ''33000000'')]])
   \<and> truthy (JList [JObj [(''outAmount'', JStr ''33000000'')]])
   \<and> snd (buy_with_usdc cfg_live_manual w_ok kp0 5) = Inl manual_signing"
  by (simp add: buy_with_usdc_def manual_swap_def swap_payload_def cfg_live_manual_def
      w_ok_def good_quote_def py_int_def kp0_def)

subsection \<open>Credentials\<close>

text \<open>
  C9 (amended). \<open>load_keypair\<close> raises its configuration error if and only if no source
  is usable: \<^verbatim>\<open>PRIVATE_KEY_B58\<close> is unset or empty, and \<^verbatim>\<open>PRIVATE_KEY_JSON\<close> is unset, empty
  or names no existing file. Two configured sources are no error: the base58 string
  is used and the file is not read.
\<close>

theorem C9_no_key_error_iff_no_usable_source:
  "(load_keypair cfg w = Inl no_private_key) =
     (\<not> env_set (PRIVATE_KEY_B58 cfg)
      \<and> \<not> (env_set (PRIVATE_KEY_JSON cfg) \<and> path_exists w (env_val (PRIVATE_KEY_JSON cfg))))
   \<and> (env_set (PRIVATE_KEY_B58 cfg) \<longrightarrow>
        load_keypair cfg w =
          (case b58decode w (env_val (PRIVATE_KEY_B58 cfg)) of
             Inl x \<Rightarrow> Inl (Raised x)
           | Inr raw \<Rightarrow> keypair_from_bytes w raw))"
  by (auto simp: load_keypair_def no_private_key_def keypair_from_bytes_def py_bytes_def
      split: sum.splits if_splits)

theorem C9_witness:
  "load_keypair cfg_no_key w_ok = Inl no_private_key
   \<and> \<not> env_set (PRIVATE_KEY_B58 cfg_no_key) \<and> \<not> env_set (PRIVATE_KEY_JSON cfg_no_key)
   \<and> env_set (PRIVATE_KEY_B58 cfg_live_manual)
   \<and> load_keypair cfg_live_manual w_ok = Inr (Keypair [1, 2, 3] ''PUBKEY'')"
proof -
  have a: "\<not> env_set (PRIVATE_KEY_B58 cfg_no_key)" "\<not> env_set (PRIVATE_KEY_JSON cfg_no_key)"
    by (simp_all add: cfg_no_key_def env_set_def)
  have b: "env_set (PRIVATE_KEY_B58 cfg_live_manual)"
    by (simp add: cfg_live_manual_def env_set_def)
  have c: "(case b58decode w_ok (env_val (PRIVATE_KEY_B58 cfg_live_manual)) of
             Inl x \<Rightarrow> Inl (Raised x)
           | Inr raw \<Rightarrow> keypair_from_bytes w_ok raw) = Inr (Keypair [1, 2, 3] ''PUBKEY'')"
    by (simp add: w_ok_def keypair_from_bytes_def)
  from C9_no_key_error_iff_no_usable_source [of cfg_no_key w_ok]
    C9_no_key_error_iff_no_usable_source [of cfg_live_manual w_ok] a b c
  show ?thesis by simp
qed

text \<open>
  The claim as stated fails with both sources configured: the key pair is loaded.
\<close>

theorem C9_counterexample:
  "env_set (PRIVATE_KEY_B58 cfg_live_manual) \<and> env_set (PRIVATE_KEY_JSON cfg_live_manual)
   \<and> path_exists w_ok (env_val (PRIVATE_KEY_JSON cfg_live_manual))
   \<and> load_keypair cfg_live_manual w_ok = Inr (Keypair [1, 2, 3] ''PUBKEY'')"
  by (simp add: load_keypair_def cfg_live_manual_def w_ok_def env_set_def env_val_def
      keypair_from_bytes_def)

subsection \<open>The sign of the buy threshold\<close>

text \<open>
  C10. \<^verbatim>\<open>/setbuy\<close> stores any float it is given, negative ones too, and the buy condition
  after \<^verbatim>\<open>/setbuy v\<close> equals the buy condition after \<^verbatim>\<open>/setbuy -v\<close>, for every
  24h change.
\<close>

theorem C10_buy_trigger_ignores_sign:
  assumes "float_of w a = Inr v" and "float_of w b = Inr (- v)"
  shows "buy_drop_pct (snd (setbuy_cmd w [a] s)) = v
     \<and> buy_drop_pct (snd (setbuy_cmd w [b] s)) = - v
     \<and> buy_condition (snd (setbuy_cmd w [a] s)) pct24 =
        buy_condition (snd (setbuy_cmd w [b] s)) pct24
     \<and> buy_condition (s\<lparr>buy_drop_pct := v\<rparr>) pct24 =
        buy_condition (s\<lparr>buy_drop_pct := - v\<rparr>) pct24"
  using assms by (simp add: setbuy_cmd_def buy_condition_def)

theorem C10_witness:
  "float_of w_ok ''5'' = Inr 5 \<and> float_of w_ok ''-5'' = Inr (- 5)
   \<and> buy_drop_pct (snd (setbuy_cmd w_ok [''-5''] STATE)) = - 5
   \<and> buy_condition (snd (setbuy_cmd w_ok [''5''] STATE)) (- 6) =
      buy_condition (snd (setbuy_cmd w_ok [''-5''] STATE)) (- 6)
   \<and> buy_condition (snd (setbuy_cmd w_ok [''-5''] STATE)) (- 6)"
proof -
  have a: "float_of w_ok ''5'' = Inr 5" "float_of w_ok ''-5'' = Inr (- 5)"
    by (simp_all add: w_ok_def)
  have b: "buy_condition (snd (setbuy_cmd w_ok [''-5''] STATE)) (- 6)"
    by (simp add: setbuy_cmd_def a buy_condition_def STATE_def)
  from C10_buy_trigger_ignores_sign [OF a, of STATE "- 6"] a b show ?thesis by blast
qed
end
